theory Spec2Isabelle
  imports Main
begin

section \<open>Values of the Python runtime\<close>

text \<open>
  The handler works on values decoded from JSON: the invocation event and the payload
  nested in the record's \<open>Message\<close>. A \<open>dict\<close> is an association list in insertion
  order (looked up with \<open>map_of\<close>), an \<open>int\<close> is unbounded, and a \<open>float\<close> is carried
  by its \<open>repr\<close>, the only thing the handler ever does with one. A \<open>string\<close> holds
  code points below 256.
\<close>

datatype json =
    JNull
  | JBool bool
  | JInt int
  | JFloat string
  | JStr string
  | JArr "json list"
  | JObj "(string \<times> json) list"

text \<open>
  The exceptions that can leave a function of \<open>notify_teams.py\<close>. The last three come
  from the network: \<open>urllib\<close> raises \<open>HTTPError\<close> for an error status and wraps a failure
  to send the request in \<open>URLError\<close>, while a connection that breaks once the request is
  sent raises \<open>ConnectionResetError\<close>, which is not a \<open>URLError\<close>.
\<close>

datatype error =
    KeyError
  | IndexError
  | TypeError
  | AttributeError
  | JSONDecodeError
  | HTTPError int string
  | URLError string
  | ConnectionResetError

subsection \<open>Operators and methods\<close>

text \<open>\<open>sub in s\<close> on two strings: \<open>sub\<close> occurs in \<open>s\<close> as a contiguous run.\<close>

fun str_contains :: "string \<Rightarrow> string \<Rightarrow> bool" where
  "str_contains sub [] = (sub = [])"
| "str_contains sub (c # cs) = (take (length sub) (c # cs) = sub \<or> str_contains sub cs)"

text \<open>
  \<open>key in x\<close> for a string \<open>key\<close>: key membership on a dict, element membership on a
  list, substring on a string; \<open>None\<close>, booleans and numbers are not iterable.
\<close>

fun py_in :: "string \<Rightarrow> json \<Rightarrow> error + bool" where
  "py_in k (JObj kvs) = Inr (map_of kvs k \<noteq> None)"
| "py_in k (JArr xs) = Inr (JStr k \<in> set xs)"
| "py_in k (JStr s) = Inr (str_contains k s)"
| "py_in k _ = Inl TypeError"

text \<open>\<open>x[key]\<close> for a string \<open>key\<close>: only a dict can be subscripted by a string.\<close>

fun py_getitem :: "json \<Rightarrow> string \<Rightarrow> error + json" where
  "py_getitem (JObj kvs) k = (case map_of kvs k of None \<Rightarrow> Inl KeyError | Some v \<Rightarrow> Inr v)"
| "py_getitem _ k = Inl TypeError"

text \<open>
  \<open>x[0]\<close>: the first element of a list or the first character of a string; a decoded
  dict has string keys only, so \<open>0\<close> is never one of them.
\<close>

fun py_first :: "json \<Rightarrow> error + json" where
  "py_first (JArr []) = Inl IndexError"
| "py_first (JArr (x # xs)) = Inr x"
| "py_first (JStr []) = Inl IndexError"
| "py_first (JStr (c # cs)) = Inr (JStr [c])"
| "py_first (JObj kvs) = Inl KeyError"
| "py_first _ = Inl TypeError"

text \<open>\<open>x.get(key, default)\<close>: a method of dicts only.\<close>

fun py_get :: "json \<Rightarrow> string \<Rightarrow> json \<Rightarrow> error + json" where
  "py_get (JObj kvs) k d = Inr (case map_of kvs k of None \<Rightarrow> d | Some v \<Rightarrow> v)"
| "py_get _ k d = Inl AttributeError"

text \<open>\<open>str.lower\<close> on code points below 256: A-Z and the Latin-1 capitals.\<close>

definition lower_char :: "char \<Rightarrow> char" where
  "lower_char c =
     (let n = (of_char c :: nat)
      in if (65 \<le> n \<and> n \<le> 90) \<or> (192 \<le> n \<and> n \<le> 222 \<and> n \<noteq> 215)
         then char_of (n + 32) else c)"

definition str_lower :: "string \<Rightarrow> string" where
  "str_lower s = map lower_char s"

fun py_lower :: "json \<Rightarrow> error + string" where
  "py_lower (JStr s) = Inr (str_lower s)"
| "py_lower _ = Inl AttributeError"

text \<open>\<open>s.split(sep)\<close> for a separator of one character; the result is never empty.\<close>

fun str_split :: "char \<Rightarrow> string \<Rightarrow> string list" where
  "str_split sep [] = [[]]"
| "str_split sep (c # cs) =
     (if c = sep then [] # str_split sep cs
      else (case str_split sep cs of
              [] \<Rightarrow> [[c]]
            | segment # segments \<Rightarrow> (c # segment) # segments))"

fun py_split :: "char \<Rightarrow> json \<Rightarrow> error + string list" where
  "py_split sep (JStr s) = Inr (str_split sep s)"
| "py_split sep _ = Inl AttributeError"

text \<open>\<open>xs[i]\<close> on a list of strings, for a non-negative \<open>i\<close>.\<close>

definition list_index :: "'a list \<Rightarrow> nat \<Rightarrow> error + 'a" where
  "list_index xs i = (if i < length xs then Inr (xs ! i) else Inl IndexError)"

text \<open>Lists and dicts cannot be hashed, so a tuple holding one cannot be a dict key.\<close>

fun hashable :: "json \<Rightarrow> bool" where
  "hashable (JArr xs) = False"
| "hashable (JObj kvs) = False"
| "hashable _ = True"

subsection \<open>Rendering values as text\<close>

definition join :: "string \<Rightarrow> string list \<Rightarrow> string" where
  "join sep xs = (case xs of [] \<Rightarrow> [] | y # ys \<Rightarrow> y @ concat (map (\<lambda>z. sep @ z) ys))"

definition hex_digit :: "nat \<Rightarrow> char" where
  "hex_digit n = ''0123456789abcdef'' ! (n mod 16)"

definition digit_char :: "nat \<Rightarrow> char" where
  "digit_char n = ''0123456789'' ! (n mod 10)"

fun str_of_nat :: "nat \<Rightarrow> string" where
  "str_of_nat n = (if n < 10 then [digit_char n] else str_of_nat (n div 10) @ [digit_char n])"

definition str_of_int :: "int \<Rightarrow> string" where
  "str_of_int i = (if i < 0 then CHR ''-'' # str_of_nat (nat (- i)) else str_of_nat (nat i))"

text \<open>
  \<open>json.dumps\<close> with its default \<open>ensure_ascii\<close>: inside the quotes only the printable
  ASCII characters other than the quote and the backslash stand for themselves.
\<close>

definition json_escape_char :: "char \<Rightarrow> string" where
  "json_escape_char c =
     (let n = (of_char c :: nat)
      in if c = CHR 0x22 then [CHR 0x5C, CHR 0x22]
         else if c = CHR 0x5C then [CHR 0x5C, CHR 0x5C]
         else if n = 8 then [CHR 0x5C, CHR ''b'']
         else if n = 9 then [CHR 0x5C, CHR ''t'']
         else if n = 10 then [CHR 0x5C, CHR ''n'']
         else if n = 12 then [CHR 0x5C, CHR ''f'']
         else if n = 13 then [CHR 0x5C, CHR ''r'']
         else if 32 \<le> n \<and> n \<le> 126 then [c]
         else [CHR 0x5C, CHR ''u'', CHR ''0'', CHR ''0'', hex_digit (n div 16), hex_digit n])"

definition json_string :: "string \<Rightarrow> string" where
  "json_string s = [CHR 0x22] @ concat (map json_escape_char s) @ [CHR 0x22]"

definition json_float :: "string \<Rightarrow> string" where
  "json_float r =
     (if r = ''nan'' then ''NaN'' else if r = ''inf'' then ''Infinity''
      else if r = ''-inf'' then ''-Infinity'' else r)"

text \<open>
  \<open>json.dumps(x, indent=ind)\<close> at nesting depth \<open>lvl\<close>. Without \<open>indent\<close> the items are
  separated by a comma and a space; with it each item is on a line of its own, indented
  by \<open>ind\<close> spaces per level, and an empty container stays \<open>[]\<close> or \<open>{}\<close>.
\<close>

definition newline_indent :: "nat option \<Rightarrow> nat \<Rightarrow> string" where
  "newline_indent ind lvl = (case ind of None \<Rightarrow> [] | Some n \<Rightarrow> CHR 0x0A # replicate (n * lvl) CHR '' '')"

definition item_separator :: "nat option \<Rightarrow> nat \<Rightarrow> string" where
  "item_separator ind lvl = (case ind of None \<Rightarrow> '', '' | Some n \<Rightarrow> '','' @ newline_indent ind lvl)"

fun encode :: "nat option \<Rightarrow> nat \<Rightarrow> json \<Rightarrow> string"
  and encode_list :: "nat option \<Rightarrow> nat \<Rightarrow> json list \<Rightarrow> string list"
  and encode_items :: "nat option \<Rightarrow> nat \<Rightarrow> (string \<times> json) list \<Rightarrow> string list" where
  "encode ind lvl JNull = ''null''"
| "encode ind lvl (JBool b) = (if b then ''true'' else ''false'')"
| "encode ind lvl (JInt i) = str_of_int i"
| "encode ind lvl (JFloat r) = json_float r"
| "encode ind lvl (JStr s) = json_string s"
| "encode ind lvl (JArr xs) =
     (if xs = [] then ''[]''
      else ''['' @ newline_indent ind (Suc lvl)
           @ join (item_separator ind (Suc lvl)) (encode_list ind (Suc lvl) xs)
           @ newline_indent ind lvl @ '']'')"
| "encode ind lvl (JObj kvs) =
     (if kvs = [] then ''{}''
      else ''{'' @ newline_indent ind (Suc lvl)
           @ join (item_separator ind (Suc lvl)) (encode_items ind (Suc lvl) kvs)
           @ newline_indent ind lvl @ ''}'')"
| "encode_list ind lvl [] = []"
| "encode_list ind lvl (x # xs) = encode ind lvl x # encode_list ind lvl xs"
| "encode_items ind lvl [] = []"
| "encode_items ind lvl ((k, v) # kvs) =
     (json_string k @ '': '' @ encode ind lvl v) # encode_items ind lvl kvs"

definition dumps :: "nat option \<Rightarrow> json \<Rightarrow> string" where
  "dumps ind x = encode ind 0 x"

text \<open>
  \<open>repr\<close> of a string: single quotes unless the string has a single quote and no double
  quote; the quote in use and the backslash are escaped, tab, newline and carriage
  return have their letters, and the other unprintable characters are \<open>\xNN\<close>.
\<close>

definition repr_quote :: "string \<Rightarrow> char" where
  "repr_quote s = (if CHR 0x27 \<in> set s \<and> CHR 0x22 \<notin> set s then CHR 0x22 else CHR 0x27)"

definition repr_char :: "char \<Rightarrow> char \<Rightarrow> string" where
  "repr_char q c =
     (let n = (of_char c :: nat)
      in if c = q \<or> c = CHR 0x5C then [CHR 0x5C, c]
         else if n = 9 then [CHR 0x5C, CHR ''t'']
         else if n = 10 then [CHR 0x5C, CHR ''n'']
         else if n = 13 then [CHR 0x5C, CHR ''r'']
         else if n < 32 \<or> (127 \<le> n \<and> n \<le> 160) \<or> n = 173
           then [CHR 0x5C, CHR ''x'', hex_digit (n div 16), hex_digit n]
         else [c])"

definition repr_str :: "string \<Rightarrow> string" where
  "repr_str s = (let q = repr_quote s in [q] @ concat (map (repr_char q) s) @ [q])"

fun repr :: "json \<Rightarrow> string"
  and repr_list :: "json list \<Rightarrow> string list"
  and repr_items :: "(string \<times> json) list \<Rightarrow> string list" where
  "repr JNull = ''None''"
| "repr (JBool b) = (if b then ''True'' else ''False'')"
| "repr (JInt i) = str_of_int i"
| "repr (JFloat r) = r"
| "repr (JStr s) = repr_str s"
| "repr (JArr xs) = ''['' @ join '', '' (repr_list xs) @ '']''"
| "repr (JObj kvs) = ''{'' @ join '', '' (repr_items kvs) @ ''}''"
| "repr_list [] = []"
| "repr_list (x # xs) = repr x # repr_list xs"
| "repr_items [] = []"
| "repr_items ((k, v) # kvs) = (repr_str k @ '': '' @ repr v) # repr_items kvs"

text \<open>What an f-string puts in place of \<open>{x}\<close>: \<open>str(x)\<close>, a string itself unquoted.\<close>

fun py_str :: "json \<Rightarrow> string" where
  "py_str (JStr s) = s"
| "py_str x = repr x"

section \<open>Effects: the log and the webhook\<close>

text \<open>
  A run of the handler writes log lines and hands requests to \<open>urlopen\<close>. Both are
  kept in a \<open>world\<close>; what was written before an exception stays written.
\<close>

datatype level = INFO | ERROR

record request =
  url :: string
  data :: string
  headers :: "(string \<times> string) list"

record world =
  logs :: "(level \<times> string) list"
  requests :: "request list"

type_synonym 'a prog = "world \<Rightarrow> (error + 'a) \<times> world"

definition lift :: "error + 'a \<Rightarrow> 'a prog" where
  "lift r w = (r, w)"

definition and_then :: "error + 'a \<Rightarrow> ('a \<Rightarrow> error + 'b) \<Rightarrow> error + 'b" where
  "and_then r f = (case r of Inl e \<Rightarrow> Inl e | Inr x \<Rightarrow> f x)"

definition do_then :: "'a prog \<Rightarrow> ('a \<Rightarrow> 'b prog) \<Rightarrow> 'b prog" where
  "do_then m f w = (case m w of (Inl e, w') \<Rightarrow> (Inl e, w') | (Inr x, w') \<Rightarrow> f x w')"

definition logger_info :: "string \<Rightarrow> unit prog" where
  "logger_info msg w = (Inr (), w\<lparr>logs := logs w @ [(INFO, msg)]\<rparr>)"

definition logger_error :: "string \<Rightarrow> unit prog" where
  "logger_error msg w = (Inr (), w\<lparr>logs := logs w @ [(ERROR, msg)]\<rparr>)"

section \<open>The functions of \<open>notify_teams.py\<close>\<close>

text \<open>
  \<open>json.loads\<close> is the standard library's decoder, a parameter \<open>loads\<close> of the model:
  \<open>None\<close> where the text is not valid JSON. Its argument has to be a string.
\<close>

definition json_loads :: "(string \<Rightarrow> json option) \<Rightarrow> json \<Rightarrow> error + json" where
  "json_loads loads message =
     (case message of
        JStr s \<Rightarrow> (case loads s of None \<Rightarrow> Inl JSONDecodeError | Some j \<Rightarrow> Inr j)
      | _ \<Rightarrow> Inl TypeError)"

text \<open>\<open>is_cloudwatch_alarm\<close> (lines 14-19): only the decode error is caught.\<close>

definition is_cloudwatch_alarm :: "(string \<Rightarrow> json option) \<Rightarrow> json \<Rightarrow> error + bool" where
  "is_cloudwatch_alarm loads message =
     (case json_loads loads message of
        Inr message_json \<Rightarrow> py_in ''AlarmName'' message_json
      | Inl JSONDecodeError \<Rightarrow> Inr False
      | Inl e \<Rightarrow> Inl e)"

record card_data =
  colour :: string
  title :: string
  text' :: string

text \<open>The title of \<open>parse_cloudtrail_event\<close> (line 28).\<close>

definition cloudtrail_title :: "json \<Rightarrow> json \<Rightarrow> error + string" where
  "cloudtrail_title reason alarm_name =
     and_then (py_in '':'' reason) (\<lambda>has_colon.
       if has_colon then
         and_then (py_split CHR '':'' reason) (\<lambda>segments.
         and_then (list_index segments 6) (\<lambda>segment.
         and_then (list_index (str_split CHR '' '' segment) 0) (\<lambda>code.
           Inr (''Alert - '' @ code @ '' - Issue: '' @ py_str alarm_name))))
       else Inr (''Alert - Issue: '' @ py_str alarm_name))"

text \<open>\<open>parse_cloudtrail_event\<close> (lines 22-40).\<close>

definition parse_cloudtrail_event :: "json \<Rightarrow> card_data prog" where
  "parse_cloudtrail_event detail =
     do_then (logger_info (''CloudTrail detail: '' @ dumps None detail)) (\<lambda>_.
     do_then (lift (py_get detail ''eventName'' (JStr ''UnknownEvent''))) (\<lambda>alarm_name.
     do_then (lift (py_get detail ''errorMessage'' (JStr ''No error message provided''))) (\<lambda>reason.
     do_then (lift (cloudtrail_title reason alarm_name)) (\<lambda>title.
     do_then (lift (py_get detail ''eventType'' (JStr ''Unknown''))) (\<lambda>event_type.
     do_then (lift (py_get detail ''eventID'' (JStr ''Unknown''))) (\<lambda>event_id.
     do_then (lift (py_get detail ''eventTime'' (JStr ''Unknown''))) (\<lambda>event_time.
       lift (Inr \<lparr>colour = ''Attention'',
                  title = title,
                  text' = dumps (Some 2) (JObj
                    [(''Subject'', alarm_name),
                     (''Type'', event_type),
                     (''MessageId'', event_id),
                     (''Message'', reason),
                     (''Timestamp'', event_time)])\<rparr>))))))))"

text \<open>\<open>build_adaptive_card\<close> (lines 43-70). A \<open>card_data\<close> always has its colour.\<close>

definition build_adaptive_card :: "card_data \<Rightarrow> json" where
  "build_adaptive_card d =
     JObj [(''type'', JStr ''message''),
           (''attachments'', JArr
             [JObj [(''contentType'', JStr ''application/vnd.microsoft.card.adaptive''),
                    (''content'', JObj
                      [(''$schema'', JStr ''http://adaptivecards.io/schemas/adaptive-card.json''),
                       (''type'', JStr ''AdaptiveCard''),
                       (''version'', JStr ''1.5''),
                       (''body'', JArr
                         [JObj [(''type'', JStr ''TextBlock''),
                                (''text'', JStr (title d)),
                                (''weight'', JStr ''Bolder''),
                                (''size'', JStr ''Medium''),
                                (''color'', JStr (colour d))],
                          JObj [(''type'', JStr ''TextBlock''),
                                (''text'', JStr (text' d)),
                                (''wrap'', JBool True)]])])]])]"

subsection \<open>The handler\<close>

text \<open>The three branches of the \<open>if\<close>/\<open>elif\<close>/\<open>else\<close> of \<open>lambda_handler\<close>.\<close>

datatype branch = AlarmState | AuditEvent | Generic

text \<open>
  The conditions of lines 81 and 110, in their order: the second is evaluated only
  when the first is false, and either can raise.
\<close>

definition select_branch :: "(string \<Rightarrow> json option) \<Rightarrow> json \<Rightarrow> json \<Rightarrow> error + branch" where
  "select_branch loads message message_json =
     and_then (and_then (py_in ''AlarmName'' message_json) (\<lambda>has_name.
                 if has_name then is_cloudwatch_alarm loads message else Inr False)) (\<lambda>is_alarm.
       if is_alarm then Inr AlarmState
       else and_then (py_get message_json ''detail-type'' JNull) (\<lambda>detail_type.
         if detail_type = JStr ''AWS Service Event via CloudTrail'' then Inr AuditEvent
         else Inr Generic))"

text \<open>The computed card of the alarm branch (lines 89-93).\<close>

definition base_data :: "json \<Rightarrow> json \<Rightarrow> json \<Rightarrow> json \<Rightarrow> error + card_data" where
  "base_data alarm_name old_state new_state reason =
     and_then (py_lower new_state) (\<lambda>lowered.
       Inr \<lparr>colour = (if lowered \<noteq> ''alarm'' then ''Good'' else ''Attention''),
            title = (if lowered \<noteq> ''alarm'' then ''Resolved'' else ''Red Alert'')
                    @ '' - '' @ py_str alarm_name,
            text' = ''**'' @ py_str alarm_name @ ''** changed from **'' @ py_str old_state
                    @ ''** to **'' @ py_str new_state @ ''**'' @ [CHR 0x0A, CHR 0x0A]
                    @ ''Reason: '' @ py_str reason\<rparr>)"

text \<open>The override table (lines 95-106), keyed by the pair of new state and alarm name.\<close>

definition overrides :: "((json \<times> json) \<times> card_data) list" where
  "overrides =
     [((JStr ''ALARM'', JStr ''my-alarm-name''),
       \<lparr>colour = ''Attention'',
        title = ''Red Alert - A bad thing happened.'',
        text' = ''These are the specific details of the bad thing.''\<rparr>),
      ((JStr ''OK'', JStr ''my-alarm-name''),
       \<lparr>colour = ''Good'',
        title = ''The bad thing stopped happening'',
        text' = ''These are the specific details of how we know the bad thing stopped happening''\<rparr>)]"

text \<open>\<open>overrides.get(key, default)\<close> (line 108): the key tuple is hashed first.\<close>

definition overrides_get :: "json \<times> json \<Rightarrow> card_data \<Rightarrow> error + card_data" where
  "overrides_get key fallback =
     (if hashable (fst key) \<and> hashable (snd key)
      then Inr (case map_of overrides key of None \<Rightarrow> fallback | Some d \<Rightarrow> d)
      else Inl TypeError)"

text \<open>The alarm branch (lines 82-108).\<close>

definition alarm_data :: "json \<Rightarrow> card_data prog" where
  "alarm_data message_json =
     do_then (lift (py_getitem message_json ''AlarmName'')) (\<lambda>alarm_name.
     do_then (lift (py_getitem message_json ''OldStateValue'')) (\<lambda>old_state.
     do_then (lift (py_getitem message_json ''NewStateValue'')) (\<lambda>new_state.
     do_then (lift (py_getitem message_json ''NewStateReason'')) (\<lambda>reason.
     do_then (logger_info (''CloudWatch Alarm: '' @ dumps None message_json)) (\<lambda>_.
     do_then (lift (base_data alarm_name old_state new_state reason)) (\<lambda>base.
       lift (overrides_get (new_state, alarm_name) base)))))))"

text \<open>The audit branch (lines 111-112).\<close>

definition audit_data :: "json \<Rightarrow> card_data prog" where
  "audit_data message_json =
     do_then (logger_info ''Parsing CloudTrail event'') (\<lambda>_.
     do_then (lift (py_getitem message_json ''detail'')) (\<lambda>detail.
       parse_cloudtrail_event detail))"

text \<open>The fallback branch (lines 115-127): \<open>get\<close> without a default gives \<open>None\<close>.\<close>

definition fallback_data :: "json \<Rightarrow> card_data prog" where
  "fallback_data sns_record =
     do_then (logger_info ''Fallback SNS message'') (\<lambda>_.
     do_then (lift (py_get sns_record ''Subject'' (JStr ''No Subject''))) (\<lambda>subject.
     do_then (lift (py_get sns_record ''Subject'' JNull)) (\<lambda>f_subject.
     do_then (lift (py_get sns_record ''Type'' JNull)) (\<lambda>f_type.
     do_then (lift (py_get sns_record ''MessageId'' JNull)) (\<lambda>f_id.
     do_then (lift (py_get sns_record ''TopicArn'' JNull)) (\<lambda>f_arn.
     do_then (lift (py_get sns_record ''Message'' JNull)) (\<lambda>f_message.
     do_then (lift (py_get sns_record ''Timestamp'' JNull)) (\<lambda>f_time.
       lift (Inr \<lparr>colour = ''Warning'',
                  title = ''Alert - '' @ py_str subject,
                  text' = dumps (Some 2) (JObj
                    [(''Subject'', f_subject),
                     (''Type'', f_type),
                     (''MessageId'', f_id),
                     (''TopicArn'', f_arn),
                     (''Message'', f_message),
                     (''Timestamp'', f_time)])\<rparr>)))))))))"

text \<open>Line 75: \<open>event['Records'][0]['Sns']\<close>.\<close>

definition sns_record_of :: "json \<Rightarrow> error + json" where
  "sns_record_of event =
     and_then (py_getitem event ''Records'') (\<lambda>records.
     and_then (py_first records) (\<lambda>record.
       py_getitem record ''Sns''))"

text \<open>Lines 74-127 of \<open>lambda_handler\<close>: from the event to the card's data.\<close>

definition build_data :: "(string \<Rightarrow> json option) \<Rightarrow> json \<Rightarrow> card_data prog" where
  "build_data loads event =
     do_then (logger_info (''Event: '' @ dumps None event)) (\<lambda>_.
     do_then (lift (sns_record_of event)) (\<lambda>sns_record.
     do_then (lift (py_getitem sns_record ''Message'')) (\<lambda>message.
     do_then (lift (json_loads loads message)) (\<lambda>message_json.
     do_then (lift (select_branch loads message message_json)) (\<lambda>b.
       case b of
         AlarmState \<Rightarrow> alarm_data message_json
       | AuditEvent \<Rightarrow> audit_data message_json
       | Generic \<Rightarrow> fallback_data sns_record)))))"

text \<open>
  Lines 131-143: one request to the webhook. \<open>urlopen\<close> is the outside world, a
  parameter that stands for lines 137-138, opening the URL and reading the response:
  it answers or raises. \<open>HTTPError\<close> and \<open>URLError\<close> are caught and logged, anything
  else goes on to the caller.
\<close>

definition post_card :: "(request \<Rightarrow> error + unit) \<Rightarrow> string \<Rightarrow> json \<Rightarrow> unit prog" where
  "post_card urlopen HOOK_URL card_payload w =
     (let req = \<lparr>url = HOOK_URL, data = dumps None card_payload,
                 headers = [(''Content-Type'', ''application/json'')]\<rparr>;
          w1 = w\<lparr>requests := requests w @ [req]\<rparr>
      in case urlopen req of
           Inr _ \<Rightarrow> logger_info ''Message posted successfully.'' w1
         | Inl (HTTPError code reason) \<Rightarrow>
             logger_error (''Request failed: '' @ str_of_int code @ '' '' @ reason) w1
         | Inl (URLError reason) \<Rightarrow>
             logger_error (''Server connection failed: '' @ reason) w1
         | Inl e \<Rightarrow> (Inl e, w1))"

definition lambda_handler ::
  "(string \<Rightarrow> json option) \<Rightarrow> (request \<Rightarrow> error + unit) \<Rightarrow> string \<Rightarrow> json \<Rightarrow> unit prog" where
  "lambda_handler loads urlopen HOOK_URL event =
     do_then (build_data loads event) (\<lambda>data.
       post_card urlopen HOOK_URL (build_adaptive_card data))"

section \<open>The specification's reading of the audit title\<close>

text \<open>
  The specification calls the fault code of an audit title "the first
  whitespace-delimited token" of the seventh segment. This definition follows those
  words, to be compared with what \<open>cloudtrail_title\<close> computes: leading whitespace is
  skipped and the token ends at the next whitespace character.
\<close>

definition is_whitespace :: "char \<Rightarrow> bool" where
  "is_whitespace c = (c \<in> set [CHR 0x20, CHR 0x09, CHR 0x0A, CHR 0x0B, CHR 0x0C, CHR 0x0D])"

definition spec_first_token :: "string \<Rightarrow> string" where
  "spec_first_token s = takeWhile (\<lambda>c. \<not> is_whitespace c) (dropWhile is_whitespace s)"

text \<open>
  The specification lets a title fail in one way: "If fewer than 7 colon-delimited
  segments exist, this indexing fails with FormatError - implementers must guard the
  split length explicitly". This definition follows those words: the length of the
  split is tested before any segment is taken. Its failures are \<open>FormatError\<close> or, to
  compare it with the code, an exception of the code passed on as \<open>Crash\<close>.
\<close>

datatype spec_failure = Crash error | FormatError

definition spec_guarded_title :: "string \<Rightarrow> json \<Rightarrow> spec_failure + string" where
  "spec_guarded_title msg event_name =
     (if CHR '':'' \<in> set msg then
        (if length (str_split CHR '':'' msg) < 7 then Inl FormatError
         else Inr (''Alert - '' @ spec_first_token (str_split CHR '':'' msg ! 6)
                   @ '' - Issue: '' @ py_str event_name))
      else Inr (''Alert - Issue: '' @ py_str event_name))"

section \<open>Sample inputs\<close>

text \<open>
  The decoder on the messages used in the examples: each text with the value
  \<open>json.loads\<close> gives for it. The one text looked up outside the table, \<open>hello\<close>, is
  not valid JSON.
\<close>

definition alarm_audit_text :: string where
  \<open>alarm_audit_text = ''{"AlarmName": "cpu-high", "OldStateValue": "OK", "NewStateValue": "ALARM", "NewStateReason": "Threshold Crossed", "detail-type": "AWS Service Event via CloudTrail"}''\<close>

definition alarm_audit_payload :: json where
  "alarm_audit_payload =
     JObj [(''AlarmName'', JStr ''cpu-high''), (''OldStateValue'', JStr ''OK''),
           (''NewStateValue'', JStr ''ALARM''), (''NewStateReason'', JStr ''Threshold Crossed''),
           (''detail-type'', JStr ''AWS Service Event via CloudTrail'')]"

definition audit_no_detail_text :: string where
  \<open>audit_no_detail_text = ''{"detail-type": "AWS Service Event via CloudTrail"}''\<close>

definition audit_no_detail_payload :: json where
  "audit_no_detail_payload = JObj [(''detail-type'', JStr ''AWS Service Event via CloudTrail'')]"

definition status_text :: string where
  \<open>status_text = ''{"status": "disk is full"}''\<close>

definition status_payload :: json where
  "status_payload = JObj [(''status'', JStr ''disk is full'')]"

definition sample_loads :: "string \<Rightarrow> json option" where
  "sample_loads = map_of
     [(''[]'', JArr []),
      (audit_no_detail_text, audit_no_detail_payload),
      (alarm_audit_text, alarm_audit_payload),
      (status_text, status_payload)]"

text \<open>
  A webhook that accepts every request, one that answers every request with status
  503, one that drops the connection once the request is sent, and an event of one
  record.
\<close>

definition webhook_ok :: "request \<Rightarrow> error + unit" where
  "webhook_ok req = Inr ()"

definition webhook_unavailable :: "request \<Rightarrow> error + unit" where
  "webhook_unavailable req = Inl (HTTPError 503 ''Service Unavailable'')"

definition webhook_reset :: "request \<Rightarrow> error + unit" where
  "webhook_reset req = Inl ConnectionResetError"

definition sns_event :: "(string \<times> json) list \<Rightarrow> json" where
  "sns_event sns = JObj [(''Records'', JArr [JObj [(''Sns'', JObj sns)]])]"

definition no_effects :: world where
  "no_effects = \<lparr>logs = [], requests = []\<rparr>"

section \<open>Properties\<close>

lemmas prog_defs = lift_def do_then_def and_then_def logger_info_def logger_error_def

subsection \<open>Envelope and decoding\<close>

text \<open>
  C8. An envelope whose \<open>Records\<close> list is empty: indexing its first record raises
  (the specification's \<open>MalformedEnvelope\<close> is Python's \<open>IndexError\<close> here), the handler
  stops after logging the event, and no request is made.
\<close>

theorem no_records_aborts:
  assumes "map_of ev ''Records'' = Some (JArr [])"
  shows "lambda_handler loads urlopen HOOK_URL (JObj ev) w =
           (Inl IndexError, w\<lparr>logs := logs w @ [(INFO, ''Event: '' @ dumps None (JObj ev))]\<rparr>)"
  using assms
  by (simp add: lambda_handler_def build_data_def sns_record_of_def prog_defs)

theorem no_records_aborts_witness:
  \<open>map_of [(''Records'', JArr [])] ''Records'' = Some (JArr []) \<and>
   lambda_handler sample_loads webhook_ok ''https://teams.example/hook''
       (JObj [(''Records'', JArr [])]) no_effects =
     (Inl IndexError, \<lparr>logs = [(INFO, ''Event: {"Records": []}'')], requests = []\<rparr>)\<close>
  using no_records_aborts [of "[(''Records'', JArr [])]" sample_loads webhook_ok
      "''https://teams.example/hook''" no_effects]
  by (simp add: no_effects_def dumps_def join_def json_string_def json_escape_char_def
      newline_indent_def item_separator_def)

text \<open>
  C1. A record whose \<open>Message\<close> is the text \<open>hello\<close>, which is not JSON: the decode at
  line 77 is outside any \<open>try\<close>, so \<open>JSONDecodeError\<close> leaves the handler and nothing is
  posted, although \<open>is_cloudwatch_alarm\<close> catches the same error and the fallback
  branch needs nothing from the decoded payload.
\<close>

theorem non_json_message_raises:
  \<open>sample_loads ''hello'' = None \<and>
   lambda_handler sample_loads webhook_ok ''https://teams.example/hook''
       (sns_event [(''Message'', JStr ''hello'')]) no_effects =
     (Inl JSONDecodeError,
      \<lparr>logs = [(INFO, ''Event: {"Records": [{"Sns": {"Message": "hello"}}]}'')],
       requests = []\<rparr>)\<close>
  by code_simp

subsection \<open>Classification\<close>

text \<open>Once the message is decoded, lines 81-127 dispatch on \<open>select_branch\<close>.\<close>

lemma build_data_decoded:
  assumes "sns_record_of event = Inr rec"
    and "py_getitem rec ''Message'' = Inr (JStr m)"
    and "loads m = Some j"
  shows "build_data loads event w =
           (let w1 = w\<lparr>logs := logs w @ [(INFO, ''Event: '' @ dumps None event)]\<rparr>
            in case select_branch loads (JStr m) j of
                 Inl e \<Rightarrow> (Inl e, w1)
               | Inr AlarmState \<Rightarrow> alarm_data j w1
               | Inr AuditEvent \<Rightarrow> audit_data j w1
               | Inr Generic \<Rightarrow> fallback_data rec w1)"
  using assms
  by (simp add: build_data_def json_loads_def prog_defs Let_def split: sum.split branch.split)

lemma select_branch_object:
  assumes "loads m = Some (JObj kvs)"
  shows "select_branch loads (JStr m) (JObj kvs) =
           Inr (if map_of kvs ''AlarmName'' \<noteq> None then AlarmState
                else if map_of kvs ''detail-type'' = Some (JStr ''AWS Service Event via CloudTrail'')
                then AuditEvent else Generic)"
  using assms
  by (auto simp: select_branch_def is_cloudwatch_alarm_def json_loads_def and_then_def
      split: option.splits)

text \<open>
  C2, as amended. For every decoded payload that is a JSON object the first match wins:
  an object with the key \<open>AlarmName\<close> goes to the alarm branch; otherwise one whose
  \<open>detail-type\<close> is exactly \<open>AWS Service Event via CloudTrail\<close> goes to the audit
  branch; every other object goes to the fallback branch, which is given the record
  and not the payload.
\<close>

theorem branch_selection_object:
  assumes "sns_record_of event = Inr rec"
    and "py_getitem rec ''Message'' = Inr (JStr m)"
    and "loads m = Some (JObj kvs)"
  shows "select_branch loads (JStr m) (JObj kvs) =
           Inr (if map_of kvs ''AlarmName'' \<noteq> None then AlarmState
                else if map_of kvs ''detail-type'' = Some (JStr ''AWS Service Event via CloudTrail'')
                then AuditEvent else Generic)
         \<and> build_data loads event w =
           (let w1 = w\<lparr>logs := logs w @ [(INFO, ''Event: '' @ dumps None event)]\<rparr>
            in if map_of kvs ''AlarmName'' \<noteq> None then alarm_data (JObj kvs) w1
               else if map_of kvs ''detail-type'' = Some (JStr ''AWS Service Event via CloudTrail'')
               then audit_data (JObj kvs) w1
               else fallback_data rec w1)"
proof -
  have sel: "select_branch loads (JStr m) (JObj kvs) =
           Inr (if map_of kvs ''AlarmName'' \<noteq> None then AlarmState
                else if map_of kvs ''detail-type'' = Some (JStr ''AWS Service Event via CloudTrail'')
                then AuditEvent else Generic)"
    using assms(3) by (rule select_branch_object)
  show ?thesis
    unfolding build_data_decoded [where loads = loads, OF assms] sel
    by (simp add: Let_def)
qed

theorem branch_selection_object_witness:
  "sns_record_of (sns_event [(''Subject'', JStr ''cpu''), (''Message'', JStr alarm_audit_text)])
     = Inr (JObj [(''Subject'', JStr ''cpu''), (''Message'', JStr alarm_audit_text)])
   \<and> py_getitem (JObj [(''Subject'', JStr ''cpu''), (''Message'', JStr alarm_audit_text)]) ''Message''
     = Inr (JStr alarm_audit_text)
   \<and> sample_loads alarm_audit_text = Some alarm_audit_payload
   \<and> select_branch sample_loads (JStr alarm_audit_text) alarm_audit_payload = Inr AlarmState"
proof -
  let ?rec = "JObj [(''Subject'', JStr ''cpu''), (''Message'', JStr alarm_audit_text)]"
  have h1: "sns_record_of (sns_event [(''Subject'', JStr ''cpu''), (''Message'', JStr alarm_audit_text)]) = Inr ?rec"
    by (simp add: sns_record_of_def sns_event_def and_then_def)
  have h2: "py_getitem ?rec ''Message'' = Inr (JStr alarm_audit_text)"
    by simp
  have h3: "sample_loads alarm_audit_text = Some alarm_audit_payload"
    by code_simp
  have h3': "sample_loads alarm_audit_text = Some (JObj [(''AlarmName'', JStr ''cpu-high''), (''OldStateValue'', JStr ''OK''),
           (''NewStateValue'', JStr ''ALARM''), (''NewStateReason'', JStr ''Threshold Crossed''),
           (''detail-type'', JStr ''AWS Service Event via CloudTrail'')])"
    using h3 by (simp add: alarm_audit_payload_def)
  from branch_selection_object [where loads = sample_loads, OF h1 h2 h3', of no_effects]
  have "select_branch sample_loads (JStr alarm_audit_text) alarm_audit_payload = Inr AlarmState"
    by (simp add: alarm_audit_payload_def)
  with h1 h2 h3 show ?thesis by simp
qed

text \<open>
  C2 as stated covers every decoded payload. The message \<open>[]\<close> decodes to an empty
  list, which is no alarm and has no \<open>detail-type\<close>; the handler does not reach the
  fallback branch but raises \<open>AttributeError\<close> at \<open>message_json.get\<close> (line 110).
\<close>

theorem non_object_payload_counterexample:
  "sample_loads ''[]'' = Some (JArr [])
   \<and> select_branch sample_loads (JStr ''[]'') (JArr []) = Inl AttributeError
   \<and> select_branch sample_loads (JStr ''[]'') (JArr []) \<noteq> Inr Generic
   \<and> fst (lambda_handler sample_loads webhook_ok ''https://teams.example/hook''
            (sns_event [(''Message'', JStr ''[]'')]) no_effects) = Inl AttributeError"
  by code_simp
subsection \<open>The alarm branch\<close>

lemma str_lower_ALARM: "str_lower ''ALARM'' = ''alarm''"
  by code_simp

lemma str_lower_OK: "str_lower ''OK'' = ''ok''"
  by code_simp

lemma map_of_overrides:
  "map_of overrides (JStr new_state, alarm_name) =
     (if new_state = ''ALARM'' \<and> alarm_name = JStr ''my-alarm-name''
      then Some \<lparr>colour = ''Attention'',
                 title = ''Red Alert - A bad thing happened.'',
                 text' = ''These are the specific details of the bad thing.''\<rparr>
      else if new_state = ''OK'' \<and> alarm_name = JStr ''my-alarm-name''
      then Some \<lparr>colour = ''Good'',
                 title = ''The bad thing stopped happening'',
                 text' = ''These are the specific details of how we know the bad thing stopped happening''\<rparr>
      else None)"
  by (simp add: overrides_def)

lemma alarm_data_fields:
  assumes "map_of kvs ''AlarmName'' = Some alarm_name"
    and "map_of kvs ''OldStateValue'' = Some old_state"
    and "map_of kvs ''NewStateValue'' = Some new_state"
    and "map_of kvs ''NewStateReason'' = Some reason"
  shows "alarm_data (JObj kvs) w =
           (and_then (base_data alarm_name old_state new_state reason)
                     (overrides_get (new_state, alarm_name)),
            w\<lparr>logs := logs w @ [(INFO, ''CloudWatch Alarm: '' @ dumps None (JObj kvs))]\<rparr>)"
  using assms
  by (simp add: alarm_data_def prog_defs split: sum.split)

text \<open>
  C3. In the alarm branch, with a new state that is a string and an alarm name that can
  be hashed: when the pair is an entry of the override table, compared as it is (so
  \<open>ALARM\<close> and \<open>OK\<close> in capitals only), the card is that entry's three literal fields;
  otherwise the card is the computed one, unchanged.
\<close>

theorem override_precedence:
  assumes "map_of kvs ''AlarmName'' = Some alarm_name"
    and "map_of kvs ''OldStateValue'' = Some old_state"
    and "map_of kvs ''NewStateValue'' = Some (JStr new_state)"
    and "map_of kvs ''NewStateReason'' = Some reason"
    and "hashable alarm_name"
  shows "fst (alarm_data (JObj kvs) w) =
     Inr (if new_state = ''ALARM'' \<and> alarm_name = JStr ''my-alarm-name''
          then \<lparr>colour = ''Attention'',
                title = ''Red Alert - A bad thing happened.'',
                text' = ''These are the specific details of the bad thing.''\<rparr>
          else if new_state = ''OK'' \<and> alarm_name = JStr ''my-alarm-name''
          then \<lparr>colour = ''Good'',
                title = ''The bad thing stopped happening'',
                text' = ''These are the specific details of how we know the bad thing stopped happening''\<rparr>
          else \<lparr>colour = (if str_lower new_state \<noteq> ''alarm'' then ''Good'' else ''Attention''),
                title = (if str_lower new_state \<noteq> ''alarm'' then ''Resolved'' else ''Red Alert'')
                        @ '' - '' @ py_str alarm_name,
                text' = ''**'' @ py_str alarm_name @ ''** changed from **'' @ py_str old_state
                        @ ''** to **'' @ new_state @ ''**'' @ [CHR 0x0A, CHR 0x0A]
                        @ ''Reason: '' @ py_str reason\<rparr>)"
  unfolding alarm_data_fields [OF assms(1-4)]
  using assms(5)
  by (simp add: base_data_def overrides_get_def and_then_def map_of_overrides)

lemma str_lower_ok: "str_lower ''ok'' = ''ok''"
  by code_simp

theorem override_precedence_witness:
  "map_of [(''AlarmName'', JStr ''my-alarm-name''), (''OldStateValue'', JStr ''ALARM''),
           (''NewStateValue'', JStr ''OK''), (''NewStateReason'', JStr ''recovered'')] ''AlarmName''
     = Some (JStr ''my-alarm-name'')
   \<and> hashable (JStr ''my-alarm-name'')
   \<and> fst (alarm_data (JObj [(''AlarmName'', JStr ''my-alarm-name''), (''OldStateValue'', JStr ''ALARM''),
           (''NewStateValue'', JStr ''OK''), (''NewStateReason'', JStr ''recovered'')]) no_effects)
     = Inr \<lparr>colour = ''Good'',
            title = ''The bad thing stopped happening'',
            text' = ''These are the specific details of how we know the bad thing stopped happening''\<rparr>
   \<and> fst (alarm_data (JObj [(''AlarmName'', JStr ''my-alarm-name''), (''OldStateValue'', JStr ''ALARM''),
           (''NewStateValue'', JStr ''ok''), (''NewStateReason'', JStr ''recovered'')]) no_effects)
     = Inr \<lparr>colour = ''Good'',
            title = ''Resolved - my-alarm-name'',
            text' = ''**my-alarm-name** changed from **ALARM** to **ok**'' @ [CHR 0x0A, CHR 0x0A]
                    @ ''Reason: recovered''\<rparr>"
  using override_precedence [of "[(''AlarmName'', JStr ''my-alarm-name''), (''OldStateValue'', JStr ''ALARM''),
           (''NewStateValue'', JStr ''OK''), (''NewStateReason'', JStr ''recovered'')]"
           "JStr ''my-alarm-name''" "JStr ''ALARM''" "''OK''" "JStr ''recovered''" no_effects]
    override_precedence [of "[(''AlarmName'', JStr ''my-alarm-name''), (''OldStateValue'', JStr ''ALARM''),
           (''NewStateValue'', JStr ''ok''), (''NewStateReason'', JStr ''recovered'')]"
           "JStr ''my-alarm-name''" "JStr ''ALARM''" "''ok''" "JStr ''recovered''" no_effects]
    str_lower_ok
  by simp

lemma str_lower_Alarm: "str_lower ''Alarm'' = ''alarm''"
  by code_simp

lemma str_lower_INSUFFICIENT_DATA: "str_lower ''INSUFFICIENT_DATA'' = ''insufficient_data''"
  by code_simp

text \<open>
  C4. For every alarm payload with its four fields, a new state that is a string and
  an alarm name that can be hashed, the alarm branch returns a card, and the card's
  colour is \<open>Attention\<close> if the lowercased new state is \<open>alarm\<close> and \<open>Good\<close> otherwise.
  The colour is the one computed at line 90 or the one of the override entry; the two
  entries of the table agree with the rule, so it holds after the override lookup.
\<close>

theorem alarm_colour:
  assumes "map_of kvs ''AlarmName'' = Some alarm_name"
    and "map_of kvs ''OldStateValue'' = Some old_state"
    and "map_of kvs ''NewStateValue'' = Some (JStr new_state)"
    and "map_of kvs ''NewStateReason'' = Some reason"
    and "hashable alarm_name"
  shows "\<exists>d. fst (alarm_data (JObj kvs) w) = Inr d
           \<and> colour d = (if str_lower new_state = ''alarm'' then ''Attention'' else ''Good'')"
  unfolding alarm_data_fields [OF assms(1-4)]
  using assms(5)
  by (auto simp: base_data_def overrides_get_def and_then_def map_of_overrides
      str_lower_ALARM str_lower_OK)

theorem alarm_colour_witness:
  "map_of [(''AlarmName'', JStr ''cpu''), (''OldStateValue'', JStr ''OK''),
           (''NewStateValue'', JStr ''Alarm''), (''NewStateReason'', JStr ''too hot'')]
       ''NewStateValue'' = Some (JStr ''Alarm'')
   \<and> hashable (JStr ''cpu'')
   \<and> str_lower ''Alarm'' = ''alarm''
   \<and> (\<exists>d. fst (alarm_data (JObj [(''AlarmName'', JStr ''cpu''), (''OldStateValue'', JStr ''OK''),
                  (''NewStateValue'', JStr ''Alarm''), (''NewStateReason'', JStr ''too hot'')])
                no_effects) = Inr d
          \<and> colour d = ''Attention'')
   \<and> fst (alarm_data (JObj [(''AlarmName'', JStr ''cpu''), (''OldStateValue'', JStr ''OK''),
                  (''NewStateValue'', JStr ''Alarm''), (''NewStateReason'', JStr ''too hot'')])
                no_effects)
       = Inr \<lparr>colour = ''Attention'',
              title = ''Red Alert - cpu'',
              text' = ''**cpu** changed from **OK** to **Alarm**'' @ [CHR 0x0A, CHR 0x0A]
                      @ ''Reason: too hot''\<rparr>
   \<and> str_lower ''INSUFFICIENT_DATA'' \<noteq> ''alarm''
   \<and> (\<exists>d. fst (alarm_data (JObj [(''AlarmName'', JStr ''cpu''), (''OldStateValue'', JStr ''OK''),
                  (''NewStateValue'', JStr ''INSUFFICIENT_DATA''),
                  (''NewStateReason'', JStr ''no data'')])
                no_effects) = Inr d
          \<and> colour d = ''Good'')"
proof -
  have computed: "fst (alarm_data (JObj [(''AlarmName'', JStr ''cpu''), (''OldStateValue'', JStr ''OK''),
                  (''NewStateValue'', JStr ''Alarm''), (''NewStateReason'', JStr ''too hot'')])
                no_effects)
       = Inr \<lparr>colour = ''Attention'',
              title = ''Red Alert - cpu'',
              text' = ''**cpu** changed from **OK** to **Alarm**'' @ [CHR 0x0A, CHR 0x0A]
                      @ ''Reason: too hot''\<rparr>"
    by (simp add: alarm_data_def prog_defs base_data_def overrides_get_def overrides_def
        str_lower_Alarm)
  from alarm_colour [of "[(''AlarmName'', JStr ''cpu''), (''OldStateValue'', JStr ''OK''),
           (''NewStateValue'', JStr ''Alarm''), (''NewStateReason'', JStr ''too hot'')]"
           "JStr ''cpu''" "JStr ''OK''" "''Alarm''" "JStr ''too hot''" no_effects]
    alarm_colour [of "[(''AlarmName'', JStr ''cpu''), (''OldStateValue'', JStr ''OK''),
           (''NewStateValue'', JStr ''INSUFFICIENT_DATA''), (''NewStateReason'', JStr ''no data'')]"
           "JStr ''cpu''" "JStr ''OK''" "''INSUFFICIENT_DATA''" "JStr ''no data''" no_effects]
    computed
  show ?thesis
    by (simp add: str_lower_Alarm str_lower_INSUFFICIENT_DATA)
qed

subsection \<open>The audit branch\<close>

lemma str_contains_single: "str_contains [c] s \<longleftrightarrow> c \<in> set s"
  by (induction s) auto

lemma str_split_nonempty: "str_split sep s \<noteq> []"
  by (induction s) (auto split: list.splits)

lemma hd_str_split: "hd (str_split sep s) = takeWhile (\<lambda>c. c \<noteq> sep) s"
  by (induction s) (auto simp: str_split_nonempty split: list.splits)

lemma no_separator_one_segment: "sep \<notin> set s \<Longrightarrow> str_split sep s = [s]"
  by (induction s) auto

lemma many_segments_separator:
  assumes "2 \<le> length (str_split sep s)"
  shows "sep \<in> set s"
proof (rule ccontr)
  assume "sep \<notin> set s"
  then have "str_split sep s = [s]" by (rule no_separator_one_segment)
  with assms show False by simp
qed

lemma cloudtrail_title_long:
  assumes "7 \<le> length (str_split CHR '':'' msg)"
  shows "cloudtrail_title (JStr msg) name =
           Inr (''Alert - '' @ takeWhile (\<lambda>c. c \<noteq> CHR '' '') (str_split CHR '':'' msg ! 6)
                @ '' - Issue: '' @ py_str name)"
proof -
  from assms have "CHR '':'' \<in> set msg"
    by (intro many_segments_separator) simp
  moreover have "list_index (str_split CHR '' '' (str_split CHR '':'' msg ! 6)) 0 =
          Inr (takeWhile (\<lambda>c. c \<noteq> CHR '' '') (str_split CHR '':'' msg ! 6))"
    using str_split_nonempty [of "CHR '' ''" "str_split CHR '':'' msg ! 6"]
    by (simp add: list_index_def hd_conv_nth [symmetric] hd_str_split)
  ultimately show ?thesis
    using assms
    by (simp add: cloudtrail_title_def and_then_def str_contains_single list_index_def)
qed

lemma cloudtrail_title_short:
  assumes "CHR '':'' \<in> set msg" and "length (str_split CHR '':'' msg) < 7"
  shows "cloudtrail_title (JStr msg) name = Inl IndexError"
  using assms
  by (simp add: cloudtrail_title_def and_then_def str_contains_single list_index_def)

lemma cloudtrail_title_no_colon:
  assumes "CHR '':'' \<notin> set msg"
  shows "cloudtrail_title (JStr msg) name = Inr (''Alert - Issue: '' @ py_str name)"
  using assms
  by (simp add: cloudtrail_title_def and_then_def str_contains_single)

lemma parse_cloudtrail_event_object:
  "parse_cloudtrail_event (JObj d) w =
     (let alarm_name = (case map_of d ''eventName'' of None \<Rightarrow> JStr ''UnknownEvent'' | Some v \<Rightarrow> v);
          reason = (case map_of d ''errorMessage'' of
                      None \<Rightarrow> JStr ''No error message provided'' | Some v \<Rightarrow> v);
          w1 = w\<lparr>logs := logs w @ [(INFO, ''CloudTrail detail: '' @ dumps None (JObj d))]\<rparr>
      in case cloudtrail_title reason alarm_name of
           Inl e \<Rightarrow> (Inl e, w1)
         | Inr t \<Rightarrow>
             (Inr \<lparr>colour = ''Attention'', title = t,
                   text' = dumps (Some 2) (JObj
                     [(''Subject'', alarm_name),
                      (''Type'', case map_of d ''eventType'' of None \<Rightarrow> JStr ''Unknown'' | Some v \<Rightarrow> v),
                      (''MessageId'', case map_of d ''eventID'' of None \<Rightarrow> JStr ''Unknown'' | Some v \<Rightarrow> v),
                      (''Message'', reason),
                      (''Timestamp'', case map_of d ''eventTime'' of None \<Rightarrow> JStr ''Unknown'' | Some v \<Rightarrow> v)])\<rparr>,
              w1))"
  by (simp add: parse_cloudtrail_event_def prog_defs Let_def split: sum.split)

text \<open>
  C5, as amended. For a detail object whose \<open>errorMessage\<close> is a string: with at least
  seven colon-delimited segments the title is \<open>Alert - {faultCode} - Issue: {eventName}\<close>,
  where the fault code is the text of the seventh segment before its first space
  character (all of it when it has no space, nothing when it starts with one); with
  no colon the title is \<open>Alert - Issue: {eventName}\<close>.
\<close>

theorem audit_title:
  assumes "map_of d ''errorMessage'' = Some (JStr msg)"
  shows "(7 \<le> length (str_split CHR '':'' msg) \<longrightarrow>
            (\<exists>card. fst (parse_cloudtrail_event (JObj d) w) = Inr card \<and>
               title card = ''Alert - '' @ takeWhile (\<lambda>c. c \<noteq> CHR '' '') (str_split CHR '':'' msg ! 6)
                 @ '' - Issue: ''
                 @ py_str (case map_of d ''eventName'' of None \<Rightarrow> JStr ''UnknownEvent'' | Some v \<Rightarrow> v)))
       \<and> (CHR '':'' \<notin> set msg \<longrightarrow>
            (\<exists>card. fst (parse_cloudtrail_event (JObj d) w) = Inr card \<and>
               title card = ''Alert - Issue: ''
                 @ py_str (case map_of d ''eventName'' of None \<Rightarrow> JStr ''UnknownEvent'' | Some v \<Rightarrow> v)))"
proof (intro conjI impI)
  assume "7 \<le> length (str_split CHR '':'' msg)"
  then show "\<exists>card. fst (parse_cloudtrail_event (JObj d) w) = Inr card \<and>
               title card = ''Alert - '' @ takeWhile (\<lambda>c. c \<noteq> CHR '' '') (str_split CHR '':'' msg ! 6)
                 @ '' - Issue: ''
                 @ py_str (case map_of d ''eventName'' of None \<Rightarrow> JStr ''UnknownEvent'' | Some v \<Rightarrow> v)"
    using assms
    by (simp add: parse_cloudtrail_event_object cloudtrail_title_long Let_def)
next
  assume "CHR '':'' \<notin> set msg"
  then show "\<exists>card. fst (parse_cloudtrail_event (JObj d) w) = Inr card \<and>
               title card = ''Alert - Issue: ''
                 @ py_str (case map_of d ''eventName'' of None \<Rightarrow> JStr ''UnknownEvent'' | Some v \<Rightarrow> v)"
    using assms
    by (simp add: parse_cloudtrail_event_object cloudtrail_title_no_colon Let_def)
qed

theorem audit_title_witness:
  "map_of [(''eventName'', JStr ''E1''), (''errorMessage'', JStr ''a:b:c:d:e:f:token extra'')] ''errorMessage''
     = Some (JStr ''a:b:c:d:e:f:token extra'')
   \<and> 7 \<le> length (str_split CHR '':'' ''a:b:c:d:e:f:token extra'')
   \<and> (\<exists>card. fst (parse_cloudtrail_event
          (JObj [(''eventName'', JStr ''E1''), (''errorMessage'', JStr ''a:b:c:d:e:f:token extra'')])
          no_effects) = Inr card \<and> title card = ''Alert - token - Issue: E1'')
   \<and> CHR '':'' \<notin> set ''access denied''
   \<and> (\<exists>card. fst (parse_cloudtrail_event
          (JObj [(''eventName'', JStr ''E2''), (''errorMessage'', JStr ''access denied'')])
          no_effects) = Inr card \<and> title card = ''Alert - Issue: E2'')"
proof -
  have seg: "str_split CHR '':'' ''a:b:c:d:e:f:token extra'' =
               [''a'', ''b'', ''c'', ''d'', ''e'', ''f'', ''token extra'']"
    by simp
  show ?thesis
    using audit_title [of "[(''eventName'', JStr ''E1''), (''errorMessage'', JStr ''a:b:c:d:e:f:token extra'')]"
        "''a:b:c:d:e:f:token extra''" no_effects]
      audit_title [of "[(''eventName'', JStr ''E2''), (''errorMessage'', JStr ''access denied'')]"
        "''access denied''" no_effects]
    unfolding seg
    by simp
qed

text \<open>
  C5 as stated takes the first whitespace-delimited token. Line 28 splits on the space
  character only: in a seventh segment \<open>tok<TAB>extra\<close> the first token is \<open>tok\<close>, and
  the title carries the whole segment.
\<close>

theorem fault_code_tab_counterexample:
  "7 \<le> length (str_split CHR '':'' (''a:b:c:d:e:f:tok'' @ [CHR 0x09] @ ''extra''))
   \<and> str_split CHR '':'' (''a:b:c:d:e:f:tok'' @ [CHR 0x09] @ ''extra'') ! 6 = ''tok'' @ [CHR 0x09] @ ''extra''
   \<and> spec_first_token (''tok'' @ [CHR 0x09] @ ''extra'') = ''tok''
   \<and> cloudtrail_title (JStr (''a:b:c:d:e:f:tok'' @ [CHR 0x09] @ ''extra'')) (JStr ''E1'')
       = Inr (''Alert - tok'' @ [CHR 0x09] @ ''extra - Issue: E1'')
   \<and> cloudtrail_title (JStr (''a:b:c:d:e:f:tok'' @ [CHR 0x09] @ ''extra'')) (JStr ''E1'')
       \<noteq> Inr (''Alert - ''
              @ spec_first_token (str_split CHR '':'' (''a:b:c:d:e:f:tok'' @ [CHR 0x09] @ ''extra'') ! 6)
              @ '' - Issue: E1'')"
  by code_simp

text \<open>
  C6, as amended. An \<open>errorMessage\<close> that has a colon but fewer than seven segments:
  nothing tests the length of the split, the index 6 of line 28 is out of range and
  raises \<open>IndexError\<close>, after the detail was logged. No card data is returned, so no
  text is produced from the short message.
\<close>

theorem short_error_message_fails:
  assumes "map_of d ''errorMessage'' = Some (JStr msg)"
    and "CHR '':'' \<in> set msg"
    and "length (str_split CHR '':'' msg) < 7"
  shows "list_index (str_split CHR '':'' msg) 6 = Inl IndexError
         \<and> parse_cloudtrail_event (JObj d) w =
           (Inl IndexError,
            w\<lparr>logs := logs w @ [(INFO, ''CloudTrail detail: '' @ dumps None (JObj d))]\<rparr>)"
  using assms
  by (simp add: parse_cloudtrail_event_object cloudtrail_title_short Let_def list_index_def)

theorem short_error_message_fails_witness:
  "map_of [(''eventName'', JStr ''PutObject''), (''errorMessage'', JStr ''AccessDenied: no access'')]
       ''errorMessage'' = Some (JStr ''AccessDenied: no access'')
   \<and> CHR '':'' \<in> set ''AccessDenied: no access''
   \<and> length (str_split CHR '':'' ''AccessDenied: no access'') < 7
   \<and> list_index (str_split CHR '':'' ''AccessDenied: no access'') 6 = Inl IndexError
   \<and> fst (parse_cloudtrail_event
        (JObj [(''eventName'', JStr ''PutObject''), (''errorMessage'', JStr ''AccessDenied: no access'')])
        no_effects) = Inl IndexError"
  using short_error_message_fails
      [of "[(''eventName'', JStr ''PutObject''), (''errorMessage'', JStr ''AccessDenied: no access'')]"
        "''AccessDenied: no access''" no_effects]
  by simp

text \<open>
  C6 as stated has the split length guarded and the failure a \<open>FormatError\<close>. For the
  message \<open>AccessDenied: no access\<close>, of two segments, the guarded title of the
  specification fails with \<open>FormatError\<close>; the code takes index 6 of a list of length 2
  and what leaves it is the \<open>IndexError\<close> of that access.
\<close>

theorem unguarded_index_counterexample:
  "CHR '':'' \<in> set ''AccessDenied: no access''
   \<and> length (str_split CHR '':'' ''AccessDenied: no access'') = 2
   \<and> list_index (str_split CHR '':'' ''AccessDenied: no access'') 6 = Inl IndexError
   \<and> cloudtrail_title (JStr ''AccessDenied: no access'') (JStr ''PutObject'') = Inl IndexError
   \<and> spec_guarded_title ''AccessDenied: no access'' (JStr ''PutObject'') = Inl FormatError
   \<and> map_sum Crash id (cloudtrail_title (JStr ''AccessDenied: no access'') (JStr ''PutObject''))
       \<noteq> spec_guarded_title ''AccessDenied: no access'' (JStr ''PutObject'')"
  by code_simp

text \<open>
  C10, as amended. A decoded object without the key \<open>AlarmName\<close>, whose \<open>detail-type\<close> is
  \<open>AWS Service Event via CloudTrail\<close> and which has no key \<open>detail\<close>: the handler raises
  \<open>KeyError\<close> at line 112, after two log lines and before any card is built or any
  request is made. The placeholders of \<open>parse_cloudtrail_event\<close> are for the fields of
  a detail object that exists: an empty one gives a card made of placeholders.
\<close>

theorem audit_without_detail_raises:
  assumes "sns_record_of event = Inr rec"
    and "py_getitem rec ''Message'' = Inr (JStr m)"
    and "loads m = Some (JObj kvs)"
    and "map_of kvs ''AlarmName'' = None"
    and "map_of kvs ''detail-type'' = Some (JStr ''AWS Service Event via CloudTrail'')"
    and "map_of kvs ''detail'' = None"
  shows "lambda_handler loads urlopen HOOK_URL event w =
           (Inl KeyError,
            w\<lparr>logs := logs w @ [(INFO, ''Event: '' @ dumps None event),
                                (INFO, ''Parsing CloudTrail event'')]\<rparr>)
         \<and> fst (parse_cloudtrail_event (JObj []) w) =
             Inr \<lparr>colour = ''Attention'',
                  title = ''Alert - Issue: UnknownEvent'',
                  text' = dumps (Some 2) (JObj
                    [(''Subject'', JStr ''UnknownEvent''),
                     (''Type'', JStr ''Unknown''),
                     (''MessageId'', JStr ''Unknown''),
                     (''Message'', JStr ''No error message provided''),
                     (''Timestamp'', JStr ''Unknown'')])\<rparr>"
proof -
  have sel: "select_branch loads (JStr m) (JObj kvs) = Inr AuditEvent"
    using assms(3-5) by (simp add: select_branch_object)
  have "build_data loads event w =
          audit_data (JObj kvs) (w\<lparr>logs := logs w @ [(INFO, ''Event: '' @ dumps None event)]\<rparr>)"
    unfolding build_data_decoded [where loads = loads, OF assms(1-3)] sel
    by (simp add: Let_def)
  then have "lambda_handler loads urlopen HOOK_URL event w =
           (Inl KeyError,
            w\<lparr>logs := logs w @ [(INFO, ''Event: '' @ dumps None event),
                                (INFO, ''Parsing CloudTrail event'')]\<rparr>)"
    using assms(6)
    by (simp add: lambda_handler_def audit_data_def prog_defs)
  moreover have "cloudtrail_title (JStr ''No error message provided'') (JStr ''UnknownEvent'')
                   = Inr ''Alert - Issue: UnknownEvent''"
    by (simp add: cloudtrail_title_no_colon)
  ultimately show ?thesis
    by (simp add: parse_cloudtrail_event_object)
qed

theorem audit_without_detail_raises_witness:
  "sns_record_of (sns_event [(''Message'', JStr audit_no_detail_text)])
     = Inr (JObj [(''Message'', JStr audit_no_detail_text)])
   \<and> sample_loads audit_no_detail_text = Some audit_no_detail_payload
   \<and> py_getitem audit_no_detail_payload ''detail'' = Inl KeyError
   \<and> fst (lambda_handler sample_loads webhook_ok ''https://teams.example/hook''
          (sns_event [(''Message'', JStr audit_no_detail_text)]) no_effects) = Inl KeyError
   \<and> requests (snd (lambda_handler sample_loads webhook_ok ''https://teams.example/hook''
          (sns_event [(''Message'', JStr audit_no_detail_text)]) no_effects)) = []"
proof -
  have h1: "sns_record_of (sns_event [(''Message'', JStr audit_no_detail_text)])
              = Inr (JObj [(''Message'', JStr audit_no_detail_text)])"
    by (simp add: sns_record_of_def sns_event_def and_then_def)
  have h2: "py_getitem (JObj [(''Message'', JStr audit_no_detail_text)]) ''Message''
              = Inr (JStr audit_no_detail_text)"
    by simp
  have h3: "sample_loads audit_no_detail_text = Some audit_no_detail_payload"
    by code_simp
  have h3': "sample_loads audit_no_detail_text =
               Some (JObj [(''detail-type'', JStr ''AWS Service Event via CloudTrail'')])"
    using h3 by (simp add: audit_no_detail_payload_def)
  from audit_without_detail_raises [where loads = sample_loads, OF h1 h2 h3', of webhook_ok
      "''https://teams.example/hook''" no_effects] h1 h3
  show ?thesis
    by (simp add: audit_no_detail_payload_def no_effects_def)
qed

text \<open>
  C10 as stated covers every payload with that \<open>detail-type\<close> and no \<open>detail\<close>. An
  object that also has \<open>AlarmName\<close> is an alarm first (line 81): with the alarm fields
  present the handler builds the alarm card and posts it, and raises nothing.
\<close>

theorem alarm_with_audit_marker_counterexample:
  "sample_loads alarm_audit_text = Some alarm_audit_payload
   \<and> py_get alarm_audit_payload ''detail-type'' JNull = Inr (JStr ''AWS Service Event via CloudTrail'')
   \<and> py_getitem alarm_audit_payload ''detail'' = Inl KeyError
   \<and> fst (build_data sample_loads (sns_event [(''Message'', JStr alarm_audit_text)]) no_effects) =
       Inr \<lparr>colour = ''Attention'',
            title = ''Red Alert - cpu-high'',
            text' = ''**cpu-high** changed from **OK** to **ALARM**'' @ [CHR 0x0A, CHR 0x0A]
                    @ ''Reason: Threshold Crossed''\<rparr>
   \<and> fst (lambda_handler sample_loads webhook_ok ''https://teams.example/hook''
          (sns_event [(''Message'', JStr alarm_audit_text)]) no_effects) = Inr ()
   \<and> map url (requests (snd (lambda_handler sample_loads webhook_ok ''https://teams.example/hook''
          (sns_event [(''Message'', JStr alarm_audit_text)]) no_effects)))
       = [''https://teams.example/hook'']"
  by code_simp

subsection \<open>The fallback branch\<close>

lemma fallback_data_object:
  "fallback_data (JObj sns) w =
     (Inr \<lparr>colour = ''Warning'',
           title = ''Alert - '' @ py_str (case map_of sns ''Subject'' of
                                            None \<Rightarrow> JStr ''No Subject'' | Some v \<Rightarrow> v),
           text' = dumps (Some 2) (JObj
             [(''Subject'', case map_of sns ''Subject'' of None \<Rightarrow> JNull | Some v \<Rightarrow> v),
              (''Type'', case map_of sns ''Type'' of None \<Rightarrow> JNull | Some v \<Rightarrow> v),
              (''MessageId'', case map_of sns ''MessageId'' of None \<Rightarrow> JNull | Some v \<Rightarrow> v),
              (''TopicArn'', case map_of sns ''TopicArn'' of None \<Rightarrow> JNull | Some v \<Rightarrow> v),
              (''Message'', case map_of sns ''Message'' of None \<Rightarrow> JNull | Some v \<Rightarrow> v),
              (''Timestamp'', case map_of sns ''Timestamp'' of None \<Rightarrow> JNull | Some v \<Rightarrow> v)])\<rparr>,
      w\<lparr>logs := logs w @ [(INFO, ''Fallback SNS message'')]\<rparr>)"
  by (simp add: fallback_data_def prog_defs)

lemma json_key_simps:
  \<open>json_string ''Subject'' = ''"Subject"''\<close>
  \<open>json_string ''Type'' = ''"Type"''\<close>
  \<open>json_string ''MessageId'' = ''"MessageId"''\<close>
  \<open>json_string ''TopicArn'' = ''"TopicArn"''\<close>
  \<open>json_string ''Message'' = ''"Message"''\<close>
  \<open>json_string ''Timestamp'' = ''"Timestamp"''\<close>
  by code_simp+

lemma dumps_six_fields:
  \<open>dumps (Some 2) (JObj [(''Subject'', a), (''Type'', b), (''MessageId'', c),
                          (''TopicArn'', d), (''Message'', e), (''Timestamp'', f)]) =
     ''{'' @ [CHR 0x0A] @ ''  "Subject": '' @ encode (Some 2) 1 a
     @ '','' @ [CHR 0x0A] @ ''  "Type": '' @ encode (Some 2) 1 b
     @ '','' @ [CHR 0x0A] @ ''  "MessageId": '' @ encode (Some 2) 1 c
     @ '','' @ [CHR 0x0A] @ ''  "TopicArn": '' @ encode (Some 2) 1 d
     @ '','' @ [CHR 0x0A] @ ''  "Message": '' @ encode (Some 2) 1 e
     @ '','' @ [CHR 0x0A] @ ''  "Timestamp": '' @ encode (Some 2) 1 f
     @ [CHR 0x0A] @ ''}''\<close>
  by (simp add: dumps_def join_def newline_indent_def item_separator_def json_key_simps numeral_2_eq_2)

text \<open>
  C9. For an input routed to the fallback branch the card has colour \<open>Warning\<close>, the
  title \<open>Alert - {subject}\<close> with \<open>No Subject\<close> for a record without the key \<open>Subject\<close>,
  and as text the object of the six keys \<open>Subject\<close>, \<open>Type\<close>, \<open>MessageId\<close>, \<open>TopicArn\<close>,
  \<open>Message\<close>, \<open>Timestamp\<close> in this order, one per line behind two spaces, each with the
  record's own value and \<open>null\<close> for a key the record does not have.
\<close>

theorem generic_card:
  assumes "sns_record_of event = Inr (JObj sns)"
    and "map_of sns ''Message'' = Some (JStr m)"
    and "loads m = Some j"
    and "select_branch loads (JStr m) j = Inr Generic"
  shows \<open>fst (build_data loads event w) =
     Inr \<lparr>colour = ''Warning'',
          title = ''Alert - '' @ py_str (case map_of sns ''Subject'' of
                                           None \<Rightarrow> JStr ''No Subject'' | Some v \<Rightarrow> v),
          text' =
            ''{'' @ [CHR 0x0A] @ ''  "Subject": ''
              @ encode (Some 2) 1 (case map_of sns ''Subject'' of None \<Rightarrow> JNull | Some v \<Rightarrow> v)
            @ '','' @ [CHR 0x0A] @ ''  "Type": ''
              @ encode (Some 2) 1 (case map_of sns ''Type'' of None \<Rightarrow> JNull | Some v \<Rightarrow> v)
            @ '','' @ [CHR 0x0A] @ ''  "MessageId": ''
              @ encode (Some 2) 1 (case map_of sns ''MessageId'' of None \<Rightarrow> JNull | Some v \<Rightarrow> v)
            @ '','' @ [CHR 0x0A] @ ''  "TopicArn": ''
              @ encode (Some 2) 1 (case map_of sns ''TopicArn'' of None \<Rightarrow> JNull | Some v \<Rightarrow> v)
            @ '','' @ [CHR 0x0A] @ ''  "Message": '' @ json_string m
            @ '','' @ [CHR 0x0A] @ ''  "Timestamp": ''
              @ encode (Some 2) 1 (case map_of sns ''Timestamp'' of None \<Rightarrow> JNull | Some v \<Rightarrow> v)
            @ [CHR 0x0A] @ ''}''\<rparr>
     \<and> encode (Some 2) 1 JNull = ''null''\<close>
proof -
  have msg: "py_getitem (JObj sns) ''Message'' = Inr (JStr m)"
    using assms(2) by simp
  have "build_data loads event w =
          fallback_data (JObj sns) (w\<lparr>logs := logs w @ [(INFO, ''Event: '' @ dumps None event)]\<rparr>)"
    unfolding build_data_decoded [where loads = loads, OF assms(1) msg assms(3)] assms(4)
    by (simp add: Let_def)
  then show ?thesis
    unfolding fallback_data_object dumps_six_fields
    using assms(2) by simp
qed

theorem generic_card_witness:
  \<open>sns_record_of (sns_event [(''Message'', JStr status_text)]) = Inr (JObj [(''Message'', JStr status_text)])
   \<and> sample_loads status_text = Some status_payload
   \<and> select_branch sample_loads (JStr status_text) status_payload = Inr Generic
   \<and> fst (build_data sample_loads (sns_event [(''Message'', JStr status_text)]) no_effects) =
     Inr \<lparr>colour = ''Warning'',
          title = ''Alert - No Subject'',
          text' =
            ''{'' @ [CHR 0x0A] @ ''  "Subject": null''
            @ '','' @ [CHR 0x0A] @ ''  "Type": null''
            @ '','' @ [CHR 0x0A] @ ''  "MessageId": null''
            @ '','' @ [CHR 0x0A] @ ''  "TopicArn": null''
            @ '','' @ [CHR 0x0A] @ ''  "Message": "{'' @ [CHR 0x5C] @ ''"status'' @ [CHR 0x5C] @ ''": '' @ [CHR 0x5C] @ ''"disk is full'' @ [CHR 0x5C] @ ''"}"''
            @ '','' @ [CHR 0x0A] @ ''  "Timestamp": null''
            @ [CHR 0x0A] @ ''}''\<rparr>\<close>
proof -
  have h1: "sns_record_of (sns_event [(''Message'', JStr status_text)]) = Inr (JObj [(''Message'', JStr status_text)])"
    by (simp add: sns_record_of_def sns_event_def and_then_def)
  have h2: "map_of [(''Message'', JStr status_text)] ''Message'' = Some (JStr status_text)"
    by simp
  have h3: "sample_loads status_text = Some status_payload"
    by code_simp
  have h4: "select_branch sample_loads (JStr status_text) status_payload = Inr Generic"
    by code_simp
  have enc: \<open>json_string status_text = ''"{'' @ [CHR 0x5C] @ ''"status'' @ [CHR 0x5C] @ ''": '' @ [CHR 0x5C] @ ''"disk is full'' @ [CHR 0x5C] @ ''"}"''\<close>
    by code_simp
  from generic_card [where loads = sample_loads, OF h1 h2 h3 h4, of no_effects] h1 h3 h4
  show ?thesis
    by (simp add: enc)
qed

subsection \<open>Delivery\<close>

text \<open>Nothing before line 131 touches the webhook.\<close>

lemma lift_requests: "requests (snd (lift r w)) = requests w"
  by (simp add: lift_def)

lemma logger_info_requests: "requests (snd (logger_info msg w)) = requests w"
  by (simp add: logger_info_def)

lemma do_then_requests:
  assumes "\<And>w. requests (snd (m w)) = requests w"
    and "\<And>x w. requests (snd (f x w)) = requests w"
  shows "requests (snd (do_then m f w)) = requests w"
proof (cases "m w")
  case (Pair r w1)
  with assms(1) [of w] have "requests w1 = requests w" by simp
  with Pair assms(2) show ?thesis
    by (cases r) (simp_all add: do_then_def)
qed

lemma parse_cloudtrail_event_requests:
  "requests (snd (parse_cloudtrail_event detail w)) = requests w"
  unfolding parse_cloudtrail_event_def
  by (intro do_then_requests lift_requests logger_info_requests)

lemma alarm_data_requests: "requests (snd (alarm_data message_json w)) = requests w"
  unfolding alarm_data_def
  by (intro do_then_requests lift_requests logger_info_requests)

lemma audit_data_requests: "requests (snd (audit_data message_json w)) = requests w"
  unfolding audit_data_def
  by (intro do_then_requests lift_requests logger_info_requests parse_cloudtrail_event_requests)

lemma fallback_data_requests: "requests (snd (fallback_data sns_record w)) = requests w"
  unfolding fallback_data_def
  by (intro do_then_requests lift_requests logger_info_requests)

lemma build_data_requests: "requests (snd (build_data loads event w)) = requests w"
  unfolding build_data_def
proof (intro do_then_requests lift_requests logger_info_requests)
  fix message_json sns_record :: json and b w
  show "requests (snd ((case b of
           AlarmState \<Rightarrow> alarm_data message_json
         | AuditEvent \<Rightarrow> audit_data message_json
         | Generic \<Rightarrow> fallback_data sns_record) w)) = requests w"
    by (cases b) (simp_all add: alarm_data_requests audit_data_requests fallback_data_requests)
qed

text \<open>
  C7, as amended. When the card data was built and \<open>urlopen\<close> raises \<open>HTTPError\<close> or
  \<open>URLError\<close> for the request, the handler returns normally; it has logged one error
  line, with the status code and reason or with the connection failure, and has made
  this one request and no other.
\<close>

theorem delivery_failure_swallowed:
  assumes "build_data loads event w = (Inr d, w1)"
    and "urlopen \<lparr>url = HOOK_URL, data = dumps None (build_adaptive_card d),
                  headers = [(''Content-Type'', ''application/json'')]\<rparr> = Inl failure"
    and "failure = HTTPError code reason \<or> failure = URLError reason"
  shows "lambda_handler loads urlopen HOOK_URL event w =
           (Inr (),
            \<lparr>logs = logs w1 @
               [(ERROR, case failure of
                          HTTPError c r \<Rightarrow> ''Request failed: '' @ str_of_int c @ '' '' @ r
                        | _ \<Rightarrow> ''Server connection failed: '' @ reason)],
             requests = requests w @
               [\<lparr>url = HOOK_URL, data = dumps None (build_adaptive_card d),
                 headers = [(''Content-Type'', ''application/json'')]\<rparr>]\<rparr>)"
proof -
  from build_data_requests [of loads event w] assms(1) have "requests w1 = requests w"
    by simp
  with assms show ?thesis
    by (auto simp: lambda_handler_def post_card_def do_then_def logger_error_def Let_def)
qed

theorem delivery_failure_swallowed_witness:
  "fst (lambda_handler sample_loads webhook_unavailable ''https://teams.example/hook''
          (sns_event [(''Message'', JStr status_text)]) no_effects) = Inr ()
   \<and> length (requests (snd (lambda_handler sample_loads webhook_unavailable
          ''https://teams.example/hook'' (sns_event [(''Message'', JStr status_text)]) no_effects))) = 1
   \<and> last (logs (snd (lambda_handler sample_loads webhook_unavailable
          ''https://teams.example/hook'' (sns_event [(''Message'', JStr status_text)]) no_effects)))
       = (ERROR, ''Request failed: 503 Service Unavailable'')"
proof -
  let ?event = "sns_event [(''Message'', JStr status_text)]"
  have "\<not> isl (fst (build_data sample_loads ?event no_effects))"
    by code_simp
  then obtain d where "fst (build_data sample_loads ?event no_effects) = Inr d"
    by (cases "fst (build_data sample_loads ?event no_effects)") simp_all
  then obtain w1 where bd: "build_data sample_loads ?event no_effects = (Inr d, w1)"
    by (cases "build_data sample_loads ?event no_effects") simp
  have code: "str_of_int 503 = ''503''"
    by code_simp
  from delivery_failure_swallowed [OF bd, of webhook_unavailable "''https://teams.example/hook''"
      "HTTPError 503 ''Service Unavailable''" 503 "''Service Unavailable''"]
  show ?thesis
    by (simp add: webhook_unavailable_def no_effects_def code)
qed

text \<open>
  C7 as stated covers every failed delivery. A connection that breaks once the request
  is sent raises \<open>ConnectionResetError\<close>, which neither \<open>except\<close> clause of lines 140-143
  catches: it leaves the handler, with the one request made and no error line logged.
\<close>

theorem connection_reset_counterexample:
  "fst (lambda_handler sample_loads webhook_reset ''https://teams.example/hook''
          (sns_event [(''Message'', JStr status_text)]) no_effects) = Inl ConnectionResetError
   \<and> map url (requests (snd (lambda_handler sample_loads webhook_reset
          ''https://teams.example/hook'' (sns_event [(''Message'', JStr status_text)]) no_effects)))
       = [''https://teams.example/hook'']
   \<and> map fst (logs (snd (lambda_handler sample_loads webhook_reset
          ''https://teams.example/hook'' (sns_event [(''Message'', JStr status_text)]) no_effects)))
       = [INFO, INFO]"
  by code_simp

end
